theory Spec2Isabelle
  imports Main "HOL-Library.Word"
begin

section \<open>Data model of \<open>opcua_plugin/core_read.go\<close>\<close>

text \<open>
  Byte slices and Go strings are both sequences of bytes; a \<^typ>\<open>char\<close> is one byte.
  A Go slice is either \<open>nil\<close> or a (possibly empty) sequence, and the code compares a
  slice with \<open>nil\<close>, so a slice is an option: \<open>None\<close> is \<open>nil\<close>, \<open>Some []\<close> is the
  empty slice that \<open>make([]byte, 0)\<close> returns.
\<close>

type_synonym bytes = "char list"
type_synonym byte_slice = "bytes option"

text \<open>\<open>ua.StatusCode\<close> is a \<open>uint32\<close>. The constants are those of the OPC UA status code
  table, as gopcua declares them.\<close>

type_synonym StatusCode = "32 word"

definition StatusOK :: StatusCode where
  "StatusOK = 0x00000000"

definition StatusBadCommunicationError :: StatusCode where
  "StatusBadCommunicationError = 0x80050000"

definition StatusBadTimeout :: StatusCode where
  "StatusBadTimeout = 0x800A0000"

definition StatusBadServerNotConnected :: StatusCode where
  "StatusBadServerNotConnected = 0x800D0000"

definition StatusBadDataTypeIDUnknown :: StatusCode where
  "StatusBadDataTypeIDUnknown = 0x80110000"

definition StatusBadSessionIDInvalid :: StatusCode where
  "StatusBadSessionIDInvalid = 0x80250000"

definition StatusBadNodeIDUnknown :: StatusCode where
  "StatusBadNodeIDUnknown = 0x80340000"

definition StatusBadConnectionRejected :: StatusCode where
  "StatusBadConnectionRejected = 0x80AC0000"

definition StatusBadConnectionClosed :: StatusCode where
  "StatusBadConnectionClosed = 0x80AE0000"

text \<open>
  Go error values. A \<open>ua.StatusCode\<close> implements \<open>error\<close>; \<open>service.ErrNotConnected\<close> is
  the pipeline framework's sentinel; \<open>Wrapped\<close> is an error with \<open>Unwrap() error\<close>
  (\<open>fmt.Errorf\<close> with \<open>%w\<close>), \<open>Joined\<close> one with \<open>Unwrap() []error\<close> (\<open>errors.Join\<close>);
  \<open>ErrorString\<close> is any other leaf error. Errors with an \<open>Is\<close> method of their own are
  left out.
\<close>

datatype go_error =
    StatusErr StatusCode
  | ErrNotConnected
  | ErrorString bytes
  | Wrapped bytes go_error
  | Joined "go_error list"

text \<open>
  \<open>errors.Is(err, target)\<close> for a non-nil \<open>err\<close> and a comparable \<open>target\<close>: the loop of
  the standard library's \<open>is\<close>, which compares, then unwraps.
\<close>

fun errors_Is :: "go_error \<Rightarrow> go_error \<Rightarrow> bool"
  and errors_Is_any :: "go_error list \<Rightarrow> go_error \<Rightarrow> bool" where
  "errors_Is err target =
     (if err = target then True
      else (case err of
              Wrapped msg inner \<Rightarrow> errors_Is inner target
            | Joined errs \<Rightarrow> errors_Is_any errs target
            | _ \<Rightarrow> False))"
| "errors_Is_any [] target = False"
| "errors_Is_any (e # es) target =
     (if errors_Is e target then True else errors_Is_any es target)"

text \<open>Node identifiers (\<open>ua.NodeID\<close>): a namespace index and a numeric, string, GUID or
  opaque key. The \<open>NodeID\<close> pointers of a \<open>NodeDef\<close> and of an \<open>ExpandedNodeID\<close> are
  taken to be set: gopcua's decoder allocates them, and what \<open>String()\<close> does on a \<open>nil\<close>
  one is gopcua's business.\<close>

datatype NodeID =
    NumericNodeID "16 word" "32 word"
  | StringNodeID "16 word" bytes
  | GUIDNodeID "16 word" bytes
  | ByteStringNodeID "16 word" bytes

record ExpandedNodeID =
  en_NodeID :: NodeID
  en_NamespaceURI :: bytes
  en_ServerIndex :: "32 word"

text \<open>
  \<open>ua.ExtensionObject\<close>: \<open>TypeID\<close> is a pointer and may be \<open>nil\<close>; \<open>Value\<close> is an
  \<open>interface{}\<close>, \<open>nil\<close> when the type was not registered for decoding. The decoded
  values are of any Go type: \<^typ>\<open>'a\<close>.
\<close>

record 'a ExtensionObject =
  eo_EncodingMask :: "8 word"
  eo_TypeID :: "ExpandedNodeID option"
  eo_Value :: "'a option"

text \<open>
  What \<open>variant.Value()\<close> may hold, one constructor per arm of the type switch. Floats
  are their IEEE 754 bit patterns; \<open>GoInt\<close> and \<open>GoUint\<close> are Go's \<open>int\<close> and \<open>uint\<close>, taken at 64 bits. The
  pointer of the \<open>*ua.ExtensionObject\<close> arm and the pointers in the slice of the
  \<open>[]*ua.ExtensionObject\<close> arm may be \<open>nil\<close>. \<open>Other\<close> is the \<open>default\<close> arm.
\<close>

datatype 'a go_value =
    Float32 "32 word"
  | Float64 "64 word"
  | String bytes
  | Bool bool
  | GoInt "64 word"
  | Int8 "8 word"
  | Int16 "16 word"
  | Int32 "32 word"
  | Int64 "64 word"
  | GoUint "64 word"
  | Uint8 "8 word"
  | Uint16 "16 word"
  | Uint32 "32 word"
  | Uint64 "64 word"
  | ExtObj "'a ExtensionObject option"
  | ExtObjArray "'a ExtensionObject option list"
  | Other 'a

text \<open>\<open>ua.DataValue\<close>: \<open>Value\<close> is a \<open>*ua.Variant\<close>, \<open>nil\<close> or holding a value.\<close>

record 'a DataValue =
  dv_Value :: "'a go_value option"
  dv_Status :: StatusCode

record NodeDef =
  nd_NodeID :: NodeID
  nd_BrowseName :: bytes

subsection \<open>The logger and the connection\<close>

text \<open>
  A logging call is kept as its severity, its format string and its arguments.
  \<open>ArgNodeID n\<close> stands for the argument \<open>n.String()\<close>.
\<close>

datatype log_arg =
    ArgNodeID NodeID
  | ArgStatus StatusCode
  | ArgInt nat
  | ArgBytes byte_slice
  | ArgErr go_error

datatype log_entry =
    Errorf bytes "log_arg list"
  | Warnf bytes "log_arg list"

text \<open>
  \<open>OPCUAConnection\<close>, as far as these two methods touch it: what \<open>g.Log\<close> has received,
  oldest first, and how many times \<open>g.Close\<close> has run.
\<close>

record OPCUAConnection =
  Log :: "log_entry list"
  closeCalls :: nat

definition logf :: "log_entry \<Rightarrow> OPCUAConnection \<Rightarrow> OPCUAConnection" where
  "logf e g = g\<lparr>Log := Log g @ [e]\<rparr>"

text \<open>A panic of the Go runtime: the only one these methods can raise themselves is the
  dereference of a \<open>nil\<close> pointer.\<close>

datatype panic = NilPointerDereference

section \<open>The standard library, as the code uses it\<close>

text \<open>
  \<open>strconv\<close> in base 10. \<open>formatBits\<close> negates the unsigned word with wrap-around when
  \<open>neg\<close> is set, writes the decimal digits, most significant first, and puts the sign
  in front.
\<close>

definition digit :: "nat \<Rightarrow> char" where
  "digit d = ''0123456789'' ! d"

function decimal :: "nat \<Rightarrow> bytes" where
  "decimal n = (if n < 10 then [digit n] else decimal (n div 10) @ [digit (n mod 10)])"
  by pat_completeness auto
termination
  by (relation "measure id") auto

definition formatBits :: "64 word \<Rightarrow> bool \<Rightarrow> bytes" where
  "formatBits u neg =
     (let u' = (if neg then - u else u)
      in (if neg then ''-'' else []) @ decimal (unat u'))"

definition FormatInt :: "64 word \<Rightarrow> bytes" where
  "FormatInt i = formatBits i (i <s 0)"

definition FormatUint :: "64 word \<Rightarrow> bytes" where
  "FormatUint u = formatBits u False"

definition Itoa :: "64 word \<Rightarrow> bytes" where
  "Itoa i = FormatInt i"

definition FormatBool :: "bool \<Rightarrow> bytes" where
  "FormatBool v = (if v then ''true'' else ''false'')"

text \<open>
  The rest of the library is a parameter of the model:
  \<open>FormatFloat32 v\<close> is \<open>strconv.FormatFloat(float64(v), 'f', -1, 32)\<close>,
  \<open>FormatFloat64 v\<close> is \<open>strconv.FormatFloat(v, 'f', -1, 64)\<close>,
  \<open>json_Marshal\<close> is \<open>json.Marshal\<close> on one value and \<open>json_Marshal_slice\<close> is
  \<open>json.Marshal\<close> on a \<open>[]interface{}\<close>; both return the error or the bytes.
\<close>

record 'a library =
  FormatFloat32 :: "32 word \<Rightarrow> bytes"
  FormatFloat64 :: "64 word \<Rightarrow> bytes"
  json_Marshal :: "'a \<Rightarrow> go_error + bytes"
  json_Marshal_slice :: "'a list \<Rightarrow> go_error + bytes"

text \<open>\<open>append(b, xs...)\<close>: appending nothing to \<open>nil\<close> gives \<open>nil\<close>, anything else a
  slice that is not \<open>nil\<close>.\<close>

definition append_bytes :: "byte_slice \<Rightarrow> bytes \<Rightarrow> byte_slice" where
  "append_bytes b xs =
     (case b of
        None \<Rightarrow> (if xs = [] then None else Some xs)
      | Some ys \<Rightarrow> Some (ys @ xs))"

section \<open>\<open>getBytesFromValue\<close>\<close>

type_synonym decode_result = "OPCUAConnection \<times> (panic + byte_slice \<times> bytes)"

text \<open>The final guard (lines 133 to 138): \<open>if b == nil\<close> logs and returns \<open>nil, ""\<close>;
  otherwise \<open>b, tagType\<close> is returned.\<close>

definition final_guard :: "OPCUAConnection \<Rightarrow> NodeDef \<Rightarrow> byte_slice \<Rightarrow> bytes \<Rightarrow> decode_result" where
  "final_guard g nodeDef b tagType =
     (if b = None
      then (logf (Errorf ''Could not create benthos message as payload is empty for node %s: %v''
                    [ArgNodeID (nd_NodeID nodeDef), ArgBytes b]) g,
            Inr (None, ''''))
      else (g, Inr (b, tagType)))"

text \<open>The loop of lines 104 to 109: \<open>decoded\<close> collects \<open>eo.Value\<close> of every element
  with \<open>eo != nil && eo.Value != nil\<close>.\<close>

fun collect_decoded :: "'a list \<Rightarrow> 'a ExtensionObject option list \<Rightarrow> 'a list" where
  "collect_decoded decoded [] = decoded"
| "collect_decoded decoded (eo # rest) =
     (case eo of
        None \<Rightarrow> collect_decoded decoded rest
      | Some e \<Rightarrow>
          (case eo_Value e of
             None \<Rightarrow> collect_decoded decoded rest
           | Some x \<Rightarrow> collect_decoded (decoded @ [x]) rest))"

text \<open>The type switch (lines 44 to 131) followed by the final guard. \<open>b\<close> is the slice
  made at line 40.\<close>

fun type_switch ::
  "'a library \<Rightarrow> OPCUAConnection \<Rightarrow> NodeDef \<Rightarrow> byte_slice \<Rightarrow> 'a go_value \<Rightarrow> decode_result" where
  "type_switch lib g nodeDef b (Float32 v) =
     final_guard g nodeDef (append_bytes b (FormatFloat32 lib v)) ''number''"
| "type_switch lib g nodeDef b (Float64 v) =
     final_guard g nodeDef (append_bytes b (FormatFloat64 lib v)) ''number''"
| "type_switch lib g nodeDef b (String v) =
     final_guard g nodeDef (append_bytes b v) ''string''"
| "type_switch lib g nodeDef b (Bool v) =
     final_guard g nodeDef (append_bytes b (FormatBool v)) ''bool''"
| "type_switch lib g nodeDef b (GoInt v) =
     final_guard g nodeDef (append_bytes b (Itoa v)) ''number''"
| "type_switch lib g nodeDef b (Int8 v) =
     final_guard g nodeDef (append_bytes b (FormatInt (scast v))) ''number''"
| "type_switch lib g nodeDef b (Int16 v) =
     final_guard g nodeDef (append_bytes b (FormatInt (scast v))) ''number''"
| "type_switch lib g nodeDef b (Int32 v) =
     final_guard g nodeDef (append_bytes b (FormatInt (scast v))) ''number''"
| "type_switch lib g nodeDef b (Int64 v) =
     final_guard g nodeDef (append_bytes b (FormatInt v)) ''number''"
| "type_switch lib g nodeDef b (GoUint v) =
     final_guard g nodeDef (append_bytes b (FormatUint v)) ''number''"
| "type_switch lib g nodeDef b (Uint8 v) =
     final_guard g nodeDef (append_bytes b (FormatUint (ucast v))) ''number''"
| "type_switch lib g nodeDef b (Uint16 v) =
     final_guard g nodeDef (append_bytes b (FormatUint (ucast v))) ''number''"
| "type_switch lib g nodeDef b (Uint32 v) =
     final_guard g nodeDef (append_bytes b (FormatUint (ucast v))) ''number''"
| "type_switch lib g nodeDef b (Uint64 v) =
     final_guard g nodeDef (append_bytes b (FormatUint v)) ''number''"
| "type_switch lib g nodeDef b (ExtObj p) =
     (case p of
        None \<Rightarrow> (g, Inl NilPointerDereference)
      | Some v \<Rightarrow>
          (case eo_Value v of
             None \<Rightarrow>
               (case eo_TypeID v of
                  None \<Rightarrow> (g, Inl NilPointerDereference)
                | Some typeID \<Rightarrow>
                    (logf (Warnf ''Skipping node %s: ExtensionObject type %s not decodable (custom UDT not registered)''
                             [ArgNodeID (nd_NodeID nodeDef), ArgNodeID (en_NodeID typeID)]) g,
                     Inr (None, '''')))
           | Some x \<Rightarrow>
               (case json_Marshal lib x of
                  Inl err \<Rightarrow>
                    (logf (Errorf ''Error marshaling ExtensionObject value for node %s: %v''
                             [ArgNodeID (nd_NodeID nodeDef), ArgErr err]) g,
                     Inr (None, ''''))
                | Inr jsonBytes \<Rightarrow>
                    final_guard g nodeDef (append_bytes b jsonBytes) ''string'')))"
| "type_switch lib g nodeDef b (ExtObjArray v) =
     (let decoded = collect_decoded [] v
      in if length decoded = 0
         then (logf (Warnf ''Skipping node %s: array of %d ExtensionObjects, none decodable (custom UDTs not registered)''
                       [ArgNodeID (nd_NodeID nodeDef), ArgInt (length v)]) g,
               Inr (None, ''''))
         else (case json_Marshal_slice lib decoded of
                 Inl err \<Rightarrow>
                   (logf (Errorf ''Error marshaling ExtensionObject array for node %s: %v''
                            [ArgNodeID (nd_NodeID nodeDef), ArgErr err]) g,
                    Inr (None, ''''))
               | Inr jsonBytes \<Rightarrow>
                   final_guard g nodeDef (append_bytes b jsonBytes) ''string''))"
| "type_switch lib g nodeDef b (Other v) =
     (case json_Marshal lib v of
        Inl err \<Rightarrow>
          (logf (Errorf ''Error marshaling to JSON: %v'' [ArgErr err]) g, Inr (None, ''''))
      | Inr jsonBytes \<Rightarrow>
          final_guard g nodeDef (append_bytes b jsonBytes) ''string'')"

text \<open>
  \<open>getBytesFromValue\<close>. \<open>dataValue\<close> is a pointer; the state returned is the connection
  with what was logged.
\<close>

definition getBytesFromValue ::
  "'a library \<Rightarrow> OPCUAConnection \<Rightarrow> 'a DataValue option \<Rightarrow> NodeDef \<Rightarrow> decode_result" where
  "getBytesFromValue lib g dataValue nodeDef =
     (case dataValue of
        None \<Rightarrow> (g, Inl NilPointerDereference)
      | Some dv \<Rightarrow>
          (case dv_Value dv of
             None \<Rightarrow> (logf (Errorf ''Variant is nil'' []) g, Inr (None, ''''))
           | Some variant \<Rightarrow>
               if \<not> errors_Is (StatusErr (dv_Status dv)) (StatusErr StatusOK)
               then (logf (Warnf ''Skipping node %s: status %v''
                             [ArgNodeID (nd_NodeID nodeDef), ArgStatus (dv_Status dv)]) g,
                     Inr (None, ''''))
               else type_switch lib g nodeDef (Some []) variant))"

text \<open>The Suppressed result of the specification: \<open>nil, ""\<close>.\<close>

definition Suppressed :: "byte_slice \<times> bytes" where
  "Suppressed = (None, '''')"

section \<open>\<open>Read\<close>\<close>

text \<open>
  Modelled from the spec: \<open>OPCUAConnection.Close\<close>, which is not in the files at hand.
  It is the teardown of the session handle, \<open>Close(ctx) -> error\<close>; the model counts the
  call and returns the outcome it is given.
\<close>

definition Close :: "go_error option \<Rightarrow> OPCUAConnection \<Rightarrow> OPCUAConnection \<times> go_error option" where
  "Close outcome g = (g\<lparr>closeCalls := Suc (closeCalls g)\<rparr>, outcome)"

text \<open>
  \<open>Read\<close> (lines 147 to 178). \<open>client_Read\<close> is \<open>g.Client.Read\<close>, the session handle's
  read; \<open>close_outcome\<close> is what \<open>g.Close\<close> would return. The result is the connection
  afterwards and the pair \<open>(resp, err)\<close>.
\<close>

definition Read ::
  "('c \<Rightarrow> 'q \<Rightarrow> 'r option \<times> go_error option) \<Rightarrow> ('c \<Rightarrow> go_error option) \<Rightarrow>
   OPCUAConnection \<Rightarrow> 'c \<Rightarrow> 'q \<Rightarrow> OPCUAConnection \<times> ('r option \<times> go_error option)" where
  "Read client_Read close_outcome g ctx req =
     (case client_Read ctx req of
        (resp, Some err) \<Rightarrow>
          (let g1 = logf (Errorf ''Read failed: %s'' [ArgErr err]) g
           in if errors_Is err (StatusErr StatusBadSessionIDInvalid)
              then (fst (Close (close_outcome ctx) g1), (None, Some ErrNotConnected))
              else if errors_Is err (StatusErr StatusBadCommunicationError)
              then (fst (Close (close_outcome ctx) g1), (None, Some ErrNotConnected))
              else if errors_Is err (StatusErr StatusBadConnectionClosed)
              then (fst (Close (close_outcome ctx) g1), (None, Some ErrNotConnected))
              else if errors_Is err (StatusErr StatusBadTimeout)
              then (fst (Close (close_outcome ctx) g1), (None, Some ErrNotConnected))
              else if errors_Is err (StatusErr StatusBadConnectionRejected)
              then (fst (Close (close_outcome ctx) g1), (None, Some ErrNotConnected))
              else if errors_Is err (StatusErr StatusBadServerNotConnected)
              then (fst (Close (close_outcome ctx) g1), (None, Some ErrNotConnected))
              else (g1, (None, Some err)))
      | (resp, None) \<Rightarrow> (g, (resp, None)))"

section \<open>Notions of the specification\<close>

text \<open>The fixed fault set of the Read Coordinator: session ID invalid, communication
  error, connection closed, timeout, connection rejected, server not connected. An error
  is Session-Fatal when \<open>errors.Is\<close> finds one of them in it.\<close>

definition SessionFatalCodes :: "StatusCode list" where
  "SessionFatalCodes =
     [StatusBadSessionIDInvalid, StatusBadCommunicationError, StatusBadConnectionClosed,
      StatusBadTimeout, StatusBadConnectionRejected, StatusBadServerNotConnected]"

definition SessionFatal :: "go_error \<Rightarrow> bool" where
  "SessionFatal err = list_ex (\<lambda>code. errors_Is err (StatusErr code)) SessionFatalCodes"

text \<open>The decodable elements of an array of Extension Objects, in their order: the
  decoded representations that are present.\<close>

definition decodable :: "'a ExtensionObject option list \<Rightarrow> 'a list" where
  "decodable v = List.map_filter (\<lambda>eo. Option.bind eo eo_Value) v"

text \<open>
  The base-10 text of an integer: an optional minus sign, then decimal digits without a
  leading zero (the single digit \<open>0\<close> apart) whose value is the magnitude.
\<close>

definition is_digit :: "char \<Rightarrow> bool" where
  "is_digit c = (c \<in> set ''0123456789'')"

definition digit_value :: "char \<Rightarrow> nat" where
  "digit_value c = of_char c - 48"

definition decimal_value :: "bytes \<Rightarrow> nat" where
  "decimal_value ds = foldl (\<lambda>acc c. 10 * acc + digit_value c) 0 ds"

definition canonical_digits :: "bytes \<Rightarrow> bool" where
  "canonical_digits ds =
     (ds \<noteq> [] \<and> list_all is_digit ds \<and> (hd ds \<noteq> CHR ''0'' \<or> ds = ''0''))"

definition base10_text :: "int \<Rightarrow> bytes \<Rightarrow> bool" where
  "base10_text v txt =
     (if v < 0
      then (case txt of
              [] \<Rightarrow> False
            | c # ds \<Rightarrow> c = CHR ''-'' \<and> canonical_digits ds \<and> int (decimal_value ds) = - v)
      else canonical_digits txt \<and> int (decimal_value txt) = v)"

text \<open>The number an integer scalar stands for: two's complement for the signed
  widths, the plain value for the unsigned ones.\<close>

fun integer_value :: "'a go_value \<Rightarrow> int option" where
  "integer_value (GoInt v) = Some (sint v)"
| "integer_value (Int8 v) = Some (sint v)"
| "integer_value (Int16 v) = Some (sint v)"
| "integer_value (Int32 v) = Some (sint v)"
| "integer_value (Int64 v) = Some (sint v)"
| "integer_value (GoUint v) = Some (uint v)"
| "integer_value (Uint8 v) = Some (uint v)"
| "integer_value (Uint16 v) = Some (uint v)"
| "integer_value (Uint32 v) = Some (uint v)"
| "integer_value (Uint64 v) = Some (uint v)"
| "integer_value _ = None"

section \<open>Sample inputs\<close>

text \<open>
  A small universe of decoded values with \<open>json.Marshal\<close> on it: \<open>nil\<close> gives
  \<open>null\<close>, an \<open>int64\<close> its decimal text, a \<open>float64\<close> NaN the error
  \<open>json: unsupported value: NaN\<close>; a slice gives its elements between brackets,
  separated by commas, or the first error. The float formatters are given on the bit
  patterns of 3.14 and 0 only.
\<close>

datatype sample_value = SNil | SInt64 "64 word" | SNaN

fun sample_Marshal :: "sample_value \<Rightarrow> go_error + bytes" where
  "sample_Marshal SNil = Inr ''null''"
| "sample_Marshal (SInt64 i) = Inr (FormatInt i)"
| "sample_Marshal SNaN = Inl (ErrorString ''json: unsupported value: NaN'')"

fun sample_elements :: "sample_value list \<Rightarrow> go_error + bytes" where
  "sample_elements [] = Inr []"
| "sample_elements [x] = sample_Marshal x"
| "sample_elements (x # xs) =
     (case sample_Marshal x of
        Inl e \<Rightarrow> Inl e
      | Inr a \<Rightarrow> (case sample_elements xs of Inl e \<Rightarrow> Inl e | Inr b \<Rightarrow> Inr (a @ '','' @ b)))"

definition sample_Marshal_slice :: "sample_value list \<Rightarrow> go_error + bytes" where
  "sample_Marshal_slice xs =
     (case sample_elements xs of Inl e \<Rightarrow> Inl e | Inr b \<Rightarrow> Inr (''['' @ b @ '']''))"

definition sample_FormatFloat32 :: "32 word \<Rightarrow> bytes" where
  "sample_FormatFloat32 v =
     (if v = 0x4048F5C3 then ''3.14'' else if v = 0 then ''0'' else undefined)"

definition sample_FormatFloat64 :: "64 word \<Rightarrow> bytes" where
  "sample_FormatFloat64 v =
     (if v = 0x40091EB851EB851F then ''3.14'' else if v = 0 then ''0'' else undefined)"

definition sample_library :: "sample_value library" where
  "sample_library =
     \<lparr>FormatFloat32 = sample_FormatFloat32, FormatFloat64 = sample_FormatFloat64,
      json_Marshal = sample_Marshal, json_Marshal_slice = sample_Marshal_slice\<rparr>"

text \<open>The connection and the node of the unit tests: a fresh logger, node
  \<open>ns=0;i=1001\<close> with browse name \<open>TestNode\<close>.\<close>

definition test_conn :: OPCUAConnection where
  "test_conn = \<lparr>Log = [], closeCalls = 0\<rparr>"

definition test_nodeDef :: NodeDef where
  "test_nodeDef = \<lparr>nd_NodeID = NumericNodeID 0 1001, nd_BrowseName = ''TestNode''\<rparr>"

text \<open>An array of Extension Objects of a node: one undecodable, one decoded to 7, a
  \<open>nil\<close> pointer and one decoded to \<open>nil\<close>; and an array with one element, decoded to a
  NaN.\<close>

definition sample_array :: "sample_value ExtensionObject option list" where
  "sample_array =
     [Some \<lparr>eo_EncodingMask = 1, eo_TypeID = Some \<lparr>en_NodeID = NumericNodeID 4 202, en_NamespaceURI = [], en_ServerIndex = 0\<rparr>, eo_Value = None\<rparr>,
      Some \<lparr>eo_EncodingMask = 1, eo_TypeID = Some \<lparr>en_NodeID = NumericNodeID 0 724, en_NamespaceURI = [], en_ServerIndex = 0\<rparr>, eo_Value = Some (SInt64 7)\<rparr>,
      None,
      Some \<lparr>eo_EncodingMask = 1, eo_TypeID = Some \<lparr>en_NodeID = NumericNodeID 0 724, en_NamespaceURI = [], en_ServerIndex = 0\<rparr>, eo_Value = Some SNil\<rparr>]"

definition nan_array :: "sample_value ExtensionObject option list" where
  "nan_array =
     [Some \<lparr>eo_EncodingMask = 1, eo_TypeID = Some \<lparr>en_NodeID = NumericNodeID 0 724, en_NamespaceURI = [], en_ServerIndex = 0\<rparr>, eo_Value = Some SNaN\<rparr>]"

definition undecodable_object :: "sample_value ExtensionObject" where
  "undecodable_object =
     \<lparr>eo_EncodingMask = 1,
      eo_TypeID = Some \<lparr>en_NodeID = NumericNodeID 4 202, en_NamespaceURI = [], en_ServerIndex = 0\<rparr>,
      eo_Value = None\<rparr>"

text \<open>An element that is a \<open>nil\<close> pointer, replaced by the object \<open>u\<close>.\<close>

definition nil_as_undecodable ::
  "'a ExtensionObject \<Rightarrow> 'a ExtensionObject option \<Rightarrow> 'a ExtensionObject option" where
  "nil_as_undecodable u eo = (case eo of None \<Rightarrow> Some u | Some e \<Rightarrow> Some e)"

section \<open>Auxiliary facts\<close>

subsection \<open>\<open>errors.Is\<close>\<close>

lemma errors_Is_status: "errors_Is (StatusErr a) (StatusErr b) = (a = b)"
  by simp

lemma ErrNotConnected_is_no_status: "\<not> errors_Is ErrNotConnected (StatusErr code)"
  by simp

declare errors_Is.simps [simp del]

lemma SessionFatal_iff:
  "SessionFatal err \<longleftrightarrow>
     errors_Is err (StatusErr StatusBadSessionIDInvalid) \<or>
     errors_Is err (StatusErr StatusBadCommunicationError) \<or>
     errors_Is err (StatusErr StatusBadConnectionClosed) \<or>
     errors_Is err (StatusErr StatusBadTimeout) \<or>
     errors_Is err (StatusErr StatusBadConnectionRejected) \<or>
     errors_Is err (StatusErr StatusBadServerNotConnected)"
  by (simp add: SessionFatal_def SessionFatalCodes_def)

subsection \<open>Decimal digits\<close>

declare decimal.simps [simp del]

lemma below_ten_cases:
  "d < 10 \<Longrightarrow> d = 0 \<or> d = 1 \<or> d = 2 \<or> d = 3 \<or> d = 4 \<or> d = 5 \<or> d = 6 \<or> d = 7 \<or> d = 8 \<or> d = (9::nat)"
  by arith

lemma digit_is_digit: "d < 10 \<Longrightarrow> is_digit (digit d)"
  by (drule below_ten_cases) (auto simp: digit_def is_digit_def)

lemma digit_value_digit: "d < 10 \<Longrightarrow> digit_value (digit d) = d"
  by (drule below_ten_cases) (auto simp: digit_def digit_value_def)

lemma digit_zero_iff: "d < 10 \<Longrightarrow> digit d = CHR ''0'' \<longleftrightarrow> d = 0"
  by (drule below_ten_cases) (auto simp: digit_def)

lemma decimal_nonempty: "decimal n \<noteq> []"
  by (subst decimal.simps) simp

lemma decimal_digits: "list_all is_digit (decimal n)"
  by (induction n rule: decimal.induct) (subst decimal.simps, simp add: digit_is_digit)

lemma decimal_value_snoc: "decimal_value (ds @ [c]) = 10 * decimal_value ds + digit_value c"
  by (simp add: decimal_value_def)

lemma decimal_value_decimal: "decimal_value (decimal n) = n"
proof (induction n rule: decimal.induct)
  case (1 n)
  show ?case
  proof (cases "n < 10")
    case True
    then show ?thesis
      by (subst decimal.simps) (simp add: decimal_value_def digit_value_digit)
  next
    case False
    with 1 have "decimal_value (decimal (n div 10)) = n div 10" by simp
    with False show ?thesis
      by (subst decimal.simps) (simp add: decimal_value_snoc digit_value_digit)
  qed
qed

lemma decimal_hd: "hd (decimal n) = CHR ''0'' \<Longrightarrow> n = 0"
proof (induction n rule: decimal.induct)
  case (1 n)
  show ?case
  proof (cases "n < 10")
    case True
    with 1(2) show ?thesis
      by (subst (asm) decimal.simps) (simp add: digit_zero_iff)
  next
    case False
    with 1(2) have "hd (decimal (n div 10)) = CHR ''0''"
      by (subst (asm) decimal.simps) (simp add: decimal_nonempty)
    with 1(1) False have "n div 10 = 0" by simp
    with False show ?thesis by simp
  qed
qed

lemma decimal_canonical: "canonical_digits (decimal n)"
proof -
  have "hd (decimal n) \<noteq> CHR ''0'' \<or> decimal n = ''0''"
  proof (cases "hd (decimal n) = CHR ''0''")
    case True
    then have "n = 0" by (rule decimal_hd)
    then show ?thesis by (subst (2) decimal.simps) (simp add: digit_def)
  qed simp
  then show ?thesis
    by (simp add: canonical_digits_def decimal_nonempty decimal_digits)
qed

text \<open>A canonical digit string is the decimal text of its value, so the value
  determines the string, and an integer has one base-10 text.\<close>

lemma is_digit_cases:
  "is_digit c \<Longrightarrow> c = CHR ''0'' \<or> c = CHR ''1'' \<or> c = CHR ''2'' \<or> c = CHR ''3'' \<or> c = CHR ''4'' \<or>
     c = CHR ''5'' \<or> c = CHR ''6'' \<or> c = CHR ''7'' \<or> c = CHR ''8'' \<or> c = CHR ''9''"
  by (auto simp: is_digit_def)

lemma digit_value_below_ten: "is_digit c \<Longrightarrow> digit_value c < 10"
  by (drule is_digit_cases) (auto simp: digit_value_def)

lemma digit_digit_value: "is_digit c \<Longrightarrow> digit (digit_value c) = c"
  by (drule is_digit_cases) (auto simp: digit_value_def digit_def)

lemma digit_value_zero: "is_digit c \<Longrightarrow> digit_value c = 0 \<Longrightarrow> c = CHR ''0''"
  by (drule is_digit_cases) (auto simp: digit_value_def)

lemma decimal_value_positive:
  "ds \<noteq> [] \<Longrightarrow> list_all is_digit ds \<Longrightarrow> hd ds \<noteq> CHR ''0'' \<Longrightarrow> 0 < decimal_value ds"
proof (induction ds rule: rev_induct)
  case Nil
  then show ?case by simp
next
  case (snoc c xs)
  show ?case
  proof (cases "xs = []")
    case True
    with snoc.prems digit_value_zero [of c] show ?thesis
      by (auto simp: decimal_value_def)
  next
    case False
    with snoc have "0 < decimal_value xs" by simp
    then show ?thesis by (simp add: decimal_value_snoc)
  qed
qed

lemma decimal_of_decimal_value: "canonical_digits ds \<Longrightarrow> decimal (decimal_value ds) = ds"
proof (induction ds rule: rev_induct)
  case Nil
  then show ?case by (simp add: canonical_digits_def)
next
  case (snoc c xs)
  from snoc.prems have c: "is_digit c" and xs: "list_all is_digit xs"
    by (simp_all add: canonical_digits_def)
  show ?case
  proof (cases "xs = []")
    case True
    with c show ?thesis
      by (subst decimal.simps)
         (simp add: decimal_value_def digit_value_below_ten digit_digit_value)
  next
    case False
    with snoc.prems have hd: "hd xs \<noteq> CHR ''0''"
      by (auto simp: canonical_digits_def)
    with False xs have canon: "canonical_digits xs"
      by (simp add: canonical_digits_def)
    from False xs hd have pos: "0 < decimal_value xs"
      by (rule decimal_value_positive)
    let ?n = "decimal_value (xs @ [c])"
    have n: "?n = 10 * decimal_value xs + digit_value c"
      by (rule decimal_value_snoc)
    from pos n have big: "\<not> ?n < 10" by simp
    from n c have q: "?n div 10 = decimal_value xs" and r: "?n mod 10 = digit_value c"
      using digit_value_below_ten [of c] by simp_all
    have "decimal ?n = decimal (?n div 10) @ [digit (?n mod 10)]"
      using big by (subst decimal.simps) simp
    also have "\<dots> = xs @ [c]"
      using snoc.IH [OF canon] c by (simp add: q r digit_digit_value)
    finally show ?thesis .
  qed
qed

lemma canonical_digits_unique:
  assumes "canonical_digits a" and "canonical_digits b" and "decimal_value a = decimal_value b"
  shows "a = b"
proof -
  from assms(1) have "a = decimal (decimal_value a)"
    by (rule decimal_of_decimal_value [symmetric])
  also from assms(3) have "\<dots> = decimal (decimal_value b)"
    by (rule arg_cong)
  also from assms(2) have "\<dots> = b"
    by (rule decimal_of_decimal_value)
  finally show ?thesis .
qed

lemma base10_text_unique:
  assumes a: "base10_text v a" and b: "base10_text v b"
  shows "a = b"
proof (cases "v < 0")
  case True
  from a True obtain as where as: "a = CHR ''-'' # as" "canonical_digits as" "int (decimal_value as) = - v"
    by (cases a) (simp_all add: base10_text_def)
  from b True obtain bs where bs: "b = CHR ''-'' # bs" "canonical_digits bs" "int (decimal_value bs) = - v"
    by (cases b) (simp_all add: base10_text_def)
  from as(3) bs(3) have "decimal_value as = decimal_value bs" by simp
  with as(2) bs(2) have "as = bs" by (rule canonical_digits_unique)
  with as(1) bs(1) show ?thesis by simp
next
  case False
  with a have ca: "canonical_digits a" and va: "int (decimal_value a) = v"
    by (simp_all add: base10_text_def)
  from False b have cb: "canonical_digits b" and vb: "int (decimal_value b) = v"
    by (simp_all add: base10_text_def)
  from va vb have "decimal_value a = decimal_value b" by simp
  with ca cb show ?thesis by (rule canonical_digits_unique)
qed

subsection \<open>Signed and unsigned readings of a 64-bit word\<close>

lemma uint_nonneg_sint: "\<not> sint (i :: 64 word) < 0 \<Longrightarrow> uint i = sint i"
proof -
  assume nonneg: "\<not> sint i < 0"
  have bound: "sint i < 2 ^ 63" using sint_lt [of i] by simp
  have "uint i = uint (word_of_int (sint i) :: 64 word)" by simp
  also have "\<dots> = sint i mod 2 ^ 64"
    by (simp only: uint_word_of_int len_bit0 len_num1 mult_numeral_1_right) simp
  also have "\<dots> = sint i" using nonneg bound by simp
  finally show ?thesis .
qed

lemma uint_neg_sint: "sint (i :: 64 word) < 0 \<Longrightarrow> uint (- i) = - sint i"
proof -
  assume neg: "sint i < 0"
  have bound: "- (2 ^ 63) \<le> sint i" using sint_ge [of i] by simp
  have "uint (- i) = uint (word_of_int (- sint i) :: 64 word)" by simp
  also have "\<dots> = (- sint i) mod 2 ^ 64"
    by (simp only: uint_word_of_int len_bit0 len_num1 mult_numeral_1_right) simp
  also have "\<dots> = - sint i" using neg bound by simp
  finally show ?thesis .
qed

lemma FormatInt_text: "base10_text (sint i) (FormatInt i)"
  by (simp add: FormatInt_def formatBits_def base10_text_def word_sless_alt
      decimal_canonical decimal_value_decimal uint_neg_sint uint_nonneg_sint)

lemma FormatUint_text: "base10_text (uint u) (FormatUint u)"
  by (simp add: FormatUint_def formatBits_def base10_text_def
      decimal_canonical decimal_value_decimal)

subsection \<open>The conversions and the dispatch\<close>

lemma collect_decoded_eq: "collect_decoded decoded v = decoded @ decodable v"
  by (induction v arbitrary: decoded) (auto simp: decodable_def split: option.splits)

lemma sint_scast_8_64: "sint (scast (v :: 8 word) :: 64 word) = sint v"
  by (simp add: sint_up_scast is_up)

lemma sint_scast_16_64: "sint (scast (v :: 16 word) :: 64 word) = sint v"
  by (simp add: sint_up_scast is_up)

lemma sint_scast_32_64: "sint (scast (v :: 32 word) :: 64 word) = sint v"
  by (simp add: sint_up_scast is_up)

lemma uint_ucast_8_64: "uint (ucast (v :: 8 word) :: 64 word) = uint v"
  by (simp add: uint_up_ucast is_up)

lemma uint_ucast_16_64: "uint (ucast (v :: 16 word) :: 64 word) = uint v"
  by (simp add: uint_up_ucast is_up)

lemma uint_ucast_32_64: "uint (ucast (v :: 32 word) :: 64 word) = uint v"
  by (simp add: uint_up_ucast is_up)

lemma status_OK_dispatch:
  "getBytesFromValue lib g (Some \<lparr>dv_Value = Some raw, dv_Status = StatusOK\<rparr>) nodeDef =
     type_switch lib g nodeDef (Some []) raw"
  by (simp add: getBytesFromValue_def errors_Is_status)

lemma final_guard_Some: "final_guard g nodeDef (Some xs) tagType = (g, Inr (Some xs, tagType))"
  by (simp add: final_guard_def)

lemma append_bytes_Some: "append_bytes (Some xs) ys = Some (xs @ ys)"
  by (simp add: append_bytes_def)

lemma final_guard_never_fires:
  "type_switch lib g nodeDef (Some []) raw = (g', Inr (b, tagType)) \<Longrightarrow> tagType \<noteq> [] \<Longrightarrow> b \<noteq> None \<and> g' = g"
  by (cases raw) (auto simp: final_guard_Some append_bytes_Some Let_def split: option.splits sum.splits if_splits)

lemma undecodable_with_TypeID:
  "getBytesFromValue lib g
     (Some \<lparr>dv_Value = Some (ExtObj (Some \<lparr>eo_EncodingMask = m, eo_TypeID = Some typeID, eo_Value = None\<rparr>)),
            dv_Status = StatusOK\<rparr>) nodeDef =
     (logf (Warnf ''Skipping node %s: ExtensionObject type %s not decodable (custom UDT not registered)''
              [ArgNodeID (nd_NodeID nodeDef), ArgNodeID (en_NodeID typeID)]) g,
      Inr Suppressed)"
  by (simp add: status_OK_dispatch Suppressed_def)

lemma decodable_sample_array: "decodable sample_array = [SInt64 7, SNil]"
  by (simp add: decodable_def sample_array_def)

lemma FormatInt_7: "FormatInt 7 = ''7''"
  by (simp add: FormatInt_def formatBits_def word_sless_alt decimal.simps digit_def)

lemma decodable_nil_as_undecodable:
  "eo_Value u = None \<Longrightarrow> decodable (map (nil_as_undecodable u) v) = decodable v"
  by (induction v) (auto simp: decodable_def nil_as_undecodable_def split: option.splits)

lemma decodable_drop_nil: "decodable (filter (\<lambda>eo. eo \<noteq> None) v) = decodable v"
  by (induction v) (auto simp: decodable_def split: option.splits)

lemma decodable_all_nil: "list_all (\<lambda>eo. eo = None) v \<Longrightarrow> decodable v = []"
  by (induction v) (auto simp: decodable_def)

lemma array_result_by_decodable:
  "decodable v = decodable w \<Longrightarrow>
   snd (type_switch lib g nodeDef b (ExtObjArray v)) = snd (type_switch lib g nodeDef b (ExtObjArray w))"
  by (simp add: collect_decoded_eq Let_def)

subsection \<open>The unit tests of \<open>core_read_test.go\<close> on the model\<close>

text \<open>The inputs of the tests that pass, with the results the tests expect; the float of
  the fourth test is the bit pattern of 3.14.\<close>

lemma test_int32_42:
  "getBytesFromValue lib test_conn (Some \<lparr>dv_Value = Some (Int32 42), dv_Status = StatusOK\<rparr>) test_nodeDef =
     (test_conn, Inr (Some ''42'', ''number''))"
  by (simp add: status_OK_dispatch final_guard_Some append_bytes_Some FormatInt_def formatBits_def
      word_sless_alt decimal.simps digit_def)

lemma test_float64:
  "getBytesFromValue sample_library test_conn
     (Some \<lparr>dv_Value = Some (Float64 0x40091EB851EB851F), dv_Status = StatusOK\<rparr>) test_nodeDef =
     (test_conn, Inr (Some ''3.14'', ''number''))"
  by (simp add: status_OK_dispatch final_guard_Some append_bytes_Some sample_library_def
      sample_FormatFloat64_def)

lemma test_string_hello:
  "getBytesFromValue lib test_conn (Some \<lparr>dv_Value = Some (String ''hello''), dv_Status = StatusOK\<rparr>) test_nodeDef =
     (test_conn, Inr (Some ''hello'', ''string''))"
  by (simp add: status_OK_dispatch final_guard_Some append_bytes_Some)

lemma test_bool_true:
  "getBytesFromValue lib test_conn (Some \<lparr>dv_Value = Some (Bool True), dv_Status = StatusOK\<rparr>) test_nodeDef =
     (test_conn, Inr (Some ''true'', ''bool''))"
  by (simp add: status_OK_dispatch final_guard_Some append_bytes_Some FormatBool_def)

lemma test_variant_nil:
  "getBytesFromValue lib test_conn (Some \<lparr>dv_Value = None, dv_Status = StatusOK\<rparr>) test_nodeDef =
     (\<lparr>Log = [Errorf ''Variant is nil'' []], closeCalls = 0\<rparr>, Inr Suppressed)"
  by (simp add: getBytesFromValue_def logf_def test_conn_def Suppressed_def)

lemma test_bad_status_extension_object:
  "snd (getBytesFromValue lib test_conn
     (Some \<lparr>dv_Value = Some (ExtObj (Some \<lparr>eo_EncodingMask = 0, eo_TypeID = None, eo_Value = None\<rparr>)),
            dv_Status = StatusBadDataTypeIDUnknown\<rparr>) test_nodeDef) = Inr Suppressed"
  by (simp add: getBytesFromValue_def errors_Is_status Suppressed_def StatusBadDataTypeIDUnknown_def StatusOK_def)

lemma test_undecodable_array:
  "snd (getBytesFromValue lib test_conn
     (Some \<lparr>dv_Value = Some (ExtObjArray
        [Some \<lparr>eo_EncodingMask = 0, eo_TypeID = None, eo_Value = None\<rparr>,
         Some \<lparr>eo_EncodingMask = 0, eo_TypeID = None, eo_Value = None\<rparr>,
         Some \<lparr>eo_EncodingMask = 0, eo_TypeID = None, eo_Value = None\<rparr>]),
            dv_Status = StatusOK\<rparr>) test_nodeDef) = Inr Suppressed"
  by (simp add: status_OK_dispatch Suppressed_def)

section \<open>The claims\<close>

text \<open>
  C1. The claim is that a tag type and a non-empty payload only occur together, an empty
  payload being suppressed by the final guard. The guard tests \<open>b == nil\<close>, and \<open>b\<close>, made
  by \<open>make([]byte, 0)\<close>, is never \<open>nil\<close>: for the empty string read with status OK,
  \<open>getBytesFromValue\<close> logs nothing and returns the empty payload with the tag type
  \<open>string\<close>.
\<close>

theorem empty_string_not_suppressed:
  "getBytesFromValue lib g (Some \<lparr>dv_Value = Some (String ''''), dv_Status = StatusOK\<rparr>) nodeDef =
     (g, Inr (Some [], ''string''))"
  by (simp add: status_OK_dispatch final_guard_Some append_bytes_Some)

text \<open>
  C2. When the session handle's read fails with an error classified Session-Fatal
  (\<open>errors.Is\<close> finds session ID invalid, communication error, connection closed,
  timeout, connection rejected or server not connected in it), \<open>Read\<close> logs the failure,
  calls \<open>Close\<close> exactly once and returns no response and the canonical
  \<open>service.ErrNotConnected\<close>, which is never the original error; what \<open>Close\<close> returns
  has no part in the result.
\<close>

theorem Read_session_fatal:
  assumes "client_Read ctx req = (resp, Some err)" and "SessionFatal err"
  shows "Read client_Read close_outcome g ctx req =
           (g\<lparr>Log := Log g @ [Errorf ''Read failed: %s'' [ArgErr err]],
              closeCalls := Suc (closeCalls g)\<rparr>,
            (None, Some ErrNotConnected))
         \<and> err \<noteq> ErrNotConnected"
proof
  from assms show "Read client_Read close_outcome g ctx req =
           (g\<lparr>Log := Log g @ [Errorf ''Read failed: %s'' [ArgErr err]],
              closeCalls := Suc (closeCalls g)\<rparr>,
            (None, Some ErrNotConnected))"
    by (auto simp: Read_def SessionFatal_iff Close_def logf_def Let_def)
  from assms(2) show "err \<noteq> ErrNotConnected"
    by (auto simp: SessionFatal_iff ErrNotConnected_is_no_status)
qed

theorem Read_session_fatal_witness:
  "Read (\<lambda>ctx req. (None :: nat option, Some (Wrapped ''opcua: read'' (StatusErr StatusBadTimeout))))
        (\<lambda>ctx. Some (ErrorString ''close failed'')) test_conn () [NumericNodeID 0 1001] =
     (\<lparr>Log = [Errorf ''Read failed: %s'' [ArgErr (Wrapped ''opcua: read'' (StatusErr StatusBadTimeout))]],
       closeCalls = 1\<rparr>,
      (None, Some ErrNotConnected))"
proof -
  have fatal: "SessionFatal (Wrapped ''opcua: read'' (StatusErr StatusBadTimeout))"
    by (simp add: SessionFatal_iff errors_Is.simps)
  show ?thesis
    using fatal
      Read_session_fatal [where client_Read = "\<lambda>ctx req. (None :: nat option, Some (Wrapped ''opcua: read'' (StatusErr StatusBadTimeout)))"
        and ctx = "()" and req = "[NumericNodeID 0 1001]" and resp = None
        and err = "Wrapped ''opcua: read'' (StatusErr StatusBadTimeout)"
        and close_outcome = "\<lambda>ctx. Some (ErrorString ''close failed'')" and g = test_conn]
    by (simp add: test_conn_def)
qed

text \<open>
  C3. For a value whose status is not OK, whatever the variant holds (nothing at all
  included), \<open>getBytesFromValue\<close> returns Suppressed: \<open>nil\<close> and the empty tag type, and
  no panic.
\<close>

theorem bad_status_suppressed:
  assumes "dv_Status dv \<noteq> StatusOK"
  shows "snd (getBytesFromValue lib g (Some dv) nodeDef) = Inr Suppressed"
  using assms
  by (simp add: getBytesFromValue_def Suppressed_def errors_Is_status split: option.splits)

theorem bad_status_suppressed_witness:
  "getBytesFromValue sample_library test_conn
     (Some \<lparr>dv_Value = Some (Int32 42), dv_Status = StatusBadNodeIDUnknown\<rparr>) test_nodeDef =
     (\<lparr>Log = [Warnf ''Skipping node %s: status %v''
                [ArgNodeID (NumericNodeID 0 1001), ArgStatus StatusBadNodeIDUnknown]],
       closeCalls = 0\<rparr>,
      Inr Suppressed)"
proof -
  have bad: "dv_Status \<lparr>dv_Value = Some (Int32 42 :: sample_value go_value), dv_Status = StatusBadNodeIDUnknown\<rparr> \<noteq> StatusOK"
    by (simp add: StatusBadNodeIDUnknown_def StatusOK_def)
  have "fst (getBytesFromValue sample_library test_conn
     (Some \<lparr>dv_Value = Some (Int32 42), dv_Status = StatusBadNodeIDUnknown\<rparr>) test_nodeDef) =
     \<lparr>Log = [Warnf ''Skipping node %s: status %v''
                [ArgNodeID (NumericNodeID 0 1001), ArgStatus StatusBadNodeIDUnknown]],
       closeCalls = 0\<rparr>"
    using bad
    by (simp add: getBytesFromValue_def errors_Is_status logf_def test_conn_def test_nodeDef_def)
  with bad_status_suppressed [OF bad, of sample_library test_conn test_nodeDef]
  show ?thesis by (simp add: prod_eq_iff)
qed

text \<open>
  C4. When the session handle's read fails with an error that is not classified
  Session-Fatal, \<open>Read\<close> logs the failure, does not call \<open>Close\<close> and returns no
  response and the original error, unchanged.
\<close>

theorem Read_other_error:
  assumes "client_Read ctx req = (resp, Some err)" and "\<not> SessionFatal err"
  shows "Read client_Read close_outcome g ctx req =
           (g\<lparr>Log := Log g @ [Errorf ''Read failed: %s'' [ArgErr err]]\<rparr>, (None, Some err))
         \<and> closeCalls (fst (Read client_Read close_outcome g ctx req)) = closeCalls g"
  using assms by (simp add: Read_def SessionFatal_iff logf_def Let_def)

theorem Read_other_error_witness:
  "Read (\<lambda>ctx req. (None :: nat option, Some (StatusErr StatusBadNodeIDUnknown)))
        (\<lambda>ctx. None) test_conn () [NumericNodeID 0 1001] =
     (\<lparr>Log = [Errorf ''Read failed: %s'' [ArgErr (StatusErr StatusBadNodeIDUnknown)]], closeCalls = 0\<rparr>,
      (None, Some (StatusErr StatusBadNodeIDUnknown)))"
proof -
  have other: "\<not> SessionFatal (StatusErr StatusBadNodeIDUnknown)"
    by (simp add: SessionFatal_iff errors_Is_status StatusBadNodeIDUnknown_def
        StatusBadSessionIDInvalid_def StatusBadCommunicationError_def StatusBadConnectionClosed_def
        StatusBadTimeout_def StatusBadConnectionRejected_def StatusBadServerNotConnected_def)
  show ?thesis
    using other
      Read_other_error [where client_Read = "\<lambda>ctx req. (None :: nat option, Some (StatusErr StatusBadNodeIDUnknown))"
        and ctx = "()" and req = "[NumericNodeID 0 1001]" and resp = None
        and err = "StatusErr StatusBadNodeIDUnknown"
        and close_outcome = "\<lambda>ctx. None" and g = test_conn]
    by (simp add: test_conn_def)
qed

text \<open>
  C5, as stated, at an array whose only element is decoded to a value that
  \<open>json.Marshal\<close> rejects: there is a decodable element, and the result is Suppressed,
  with the marshaling error logged.
\<close>

theorem array_marshal_failure_counterexample:
  "decodable nan_array = [SNaN] \<and>
   getBytesFromValue sample_library test_conn
     (Some \<lparr>dv_Value = Some (ExtObjArray nan_array), dv_Status = StatusOK\<rparr>) test_nodeDef =
     (\<lparr>Log = [Errorf ''Error marshaling ExtensionObject array for node %s: %v''
                [ArgNodeID (NumericNodeID 0 1001), ArgErr (ErrorString ''json: unsupported value: NaN'')]],
       closeCalls = 0\<rparr>,
      Inr (None, ''''))"
  by (simp add: status_OK_dispatch nan_array_def decodable_def sample_library_def
      sample_Marshal_slice_def logf_def test_conn_def test_nodeDef_def)

text \<open>
  C5, amended. For an array of Extension Objects read with status OK: if no element is
  decodable the result is Suppressed; otherwise, if \<open>json.Marshal\<close> of the decodable
  elements, in their original order, succeeds, the result is its bytes with the tag type
  \<open>string\<close>, and if it fails the result is Suppressed.
\<close>

theorem array_decode:
  "snd (getBytesFromValue lib g (Some \<lparr>dv_Value = Some (ExtObjArray v), dv_Status = StatusOK\<rparr>) nodeDef) =
     (if decodable v = [] then Inr Suppressed
      else (case json_Marshal_slice lib (decodable v) of
              Inl err \<Rightarrow> Inr Suppressed
            | Inr jsonBytes \<Rightarrow> Inr (Some jsonBytes, ''string'')))"
  by (simp add: status_OK_dispatch collect_decoded_eq final_guard_Some append_bytes_Some
      Suppressed_def Let_def split: sum.splits)

theorem array_decode_witness:
  "snd (getBytesFromValue sample_library test_conn
         (Some \<lparr>dv_Value = Some (ExtObjArray sample_array), dv_Status = StatusOK\<rparr>) test_nodeDef) =
     Inr (Some ''[7,null]'', ''string'')"
  using array_decode [of sample_library test_conn sample_array test_nodeDef]
  by (simp add: decodable_sample_array sample_library_def sample_Marshal_slice_def FormatInt_7)

text \<open>
  C6. The claim is that an Extension Object without a decoded representation gives
  Suppressed and a warning, and never aborts the caller. The warning's argument
  \<open>v.TypeID.NodeID.String()\<close> dereferences \<open>v.TypeID\<close>: for the object of the unit test,
  \<open>&ua.ExtensionObject{Value: nil}\<close>, whose \<open>TypeID\<close> is \<open>nil\<close>, read with status OK,
  \<open>getBytesFromValue\<close> panics.
\<close>

theorem nil_TypeID_panics:
  "getBytesFromValue lib g
     (Some \<lparr>dv_Value = Some (ExtObj (Some \<lparr>eo_EncodingMask = 0, eo_TypeID = None, eo_Value = None\<rparr>)),
            dv_Status = StatusOK\<rparr>) nodeDef =
     (g, Inl NilPointerDereference)"
  by (simp add: status_OK_dispatch)

text \<open>
  C7. For an integer scalar of any width, signed or unsigned, that stands for the number
  \<open>v\<close>, read with status OK, \<open>getBytesFromValue\<close> logs nothing and returns the tag type
  \<open>number\<close> and a payload that is the base-10 text of \<open>v\<close>: a minus sign exactly when
  \<open>v\<close> is negative, then decimal digits of the magnitude with no leading zero. There is
  one such text for each \<open>v\<close> (\<open>base10_text_unique\<close>).
\<close>

theorem integer_scalar_decode:
  assumes "integer_value raw = Some v"
  shows "\<exists>payload. getBytesFromValue lib g (Some \<lparr>dv_Value = Some raw, dv_Status = StatusOK\<rparr>) nodeDef =
                 (g, Inr (Some payload, ''number'')) \<and> base10_text v payload"
proof (cases raw)
  case (GoInt i)
  with assms FormatInt_text [of i] show ?thesis
    by (simp add: status_OK_dispatch final_guard_Some append_bytes_Some Itoa_def)
next
  case (Int8 i)
  with assms FormatInt_text [of "scast i"] show ?thesis
    by (simp add: status_OK_dispatch final_guard_Some append_bytes_Some sint_scast_8_64)
next
  case (Int16 i)
  with assms FormatInt_text [of "scast i"] show ?thesis
    by (simp add: status_OK_dispatch final_guard_Some append_bytes_Some sint_scast_16_64)
next
  case (Int32 i)
  with assms FormatInt_text [of "scast i"] show ?thesis
    by (simp add: status_OK_dispatch final_guard_Some append_bytes_Some sint_scast_32_64)
next
  case (Int64 i)
  with assms FormatInt_text [of i] show ?thesis
    by (simp add: status_OK_dispatch final_guard_Some append_bytes_Some)
next
  case (GoUint u)
  with assms FormatUint_text [of u] show ?thesis
    by (simp add: status_OK_dispatch final_guard_Some append_bytes_Some)
next
  case (Uint8 u)
  with assms FormatUint_text [of "ucast u"] show ?thesis
    by (simp add: status_OK_dispatch final_guard_Some append_bytes_Some uint_ucast_8_64)
next
  case (Uint16 u)
  with assms FormatUint_text [of "ucast u"] show ?thesis
    by (simp add: status_OK_dispatch final_guard_Some append_bytes_Some uint_ucast_16_64)
next
  case (Uint32 u)
  with assms FormatUint_text [of "ucast u"] show ?thesis
    by (simp add: status_OK_dispatch final_guard_Some append_bytes_Some uint_ucast_32_64)
next
  case (Uint64 u)
  with assms FormatUint_text [of u] show ?thesis
    by (simp add: status_OK_dispatch final_guard_Some append_bytes_Some)
qed (use assms in simp_all)

theorem integer_scalar_decode_witness:
  "getBytesFromValue sample_library test_conn
     (Some \<lparr>dv_Value = Some (Int8 (- 128)), dv_Status = StatusOK\<rparr>) test_nodeDef =
     (test_conn, Inr (Some ''-128'', ''number'')) \<and> base10_text (- 128) ''-128''"
proof -
  have ival: "integer_value (Int8 (- 128) :: sample_value go_value) = Some (- 128)"
    by simp
  have ifmt: "FormatInt (scast (- 128 :: 8 word)) = ''-128''"
    by (simp add: FormatInt_def formatBits_def word_sless_alt decimal.simps digit_def)
  from integer_scalar_decode [OF ival, of sample_library test_conn test_nodeDef]
  obtain payload where
    res: "getBytesFromValue sample_library test_conn
            (Some \<lparr>dv_Value = Some (Int8 (- 128)), dv_Status = StatusOK\<rparr>) test_nodeDef =
          (test_conn, Inr (Some payload, ''number''))"
    and payload: "base10_text (- 128) payload"
    by blast
  have "payload = ''-128''"
    using res ifmt by (simp add: status_OK_dispatch final_guard_Some append_bytes_Some)
  with res payload show ?thesis by simp
qed

text \<open>
  C10. In an array of Extension Objects, an element that is a \<open>nil\<close> pointer is treated
  as an undecodable element is: replacing every \<open>nil\<close> pointer by an object without a
  decoded representation changes neither the result nor the log; removing the \<open>nil\<close>
  pointers does not change the result; and an array of \<open>nil\<close> pointers only gives
  Suppressed, the warning reporting the length of the array, \<open>nil\<close> pointers counted.
\<close>

theorem nil_elements_like_undecodable:
  "(eo_Value u = None \<longrightarrow>
      getBytesFromValue lib g
        (Some \<lparr>dv_Value = Some (ExtObjArray (map (nil_as_undecodable u) v)), dv_Status = st\<rparr>) nodeDef =
      getBytesFromValue lib g (Some \<lparr>dv_Value = Some (ExtObjArray v), dv_Status = st\<rparr>) nodeDef)
   \<and> snd (getBytesFromValue lib g
          (Some \<lparr>dv_Value = Some (ExtObjArray (filter (\<lambda>eo. eo \<noteq> None) v)), dv_Status = st\<rparr>) nodeDef) =
       snd (getBytesFromValue lib g (Some \<lparr>dv_Value = Some (ExtObjArray v), dv_Status = st\<rparr>) nodeDef)
   \<and> (list_all (\<lambda>eo. eo = None) v \<longrightarrow>
        getBytesFromValue lib g (Some \<lparr>dv_Value = Some (ExtObjArray v), dv_Status = StatusOK\<rparr>) nodeDef =
        (logf (Warnf ''Skipping node %s: array of %d ExtensionObjects, none decodable (custom UDTs not registered)''
                 [ArgNodeID (nd_NodeID nodeDef), ArgInt (length v)]) g,
         Inr Suppressed))"
proof (intro conjI impI)
  assume "eo_Value u = None"
  then show "getBytesFromValue lib g
        (Some \<lparr>dv_Value = Some (ExtObjArray (map (nil_as_undecodable u) v)), dv_Status = st\<rparr>) nodeDef =
      getBytesFromValue lib g (Some \<lparr>dv_Value = Some (ExtObjArray v), dv_Status = st\<rparr>) nodeDef"
    by (simp add: getBytesFromValue_def collect_decoded_eq decodable_nil_as_undecodable Let_def)
next
  show "snd (getBytesFromValue lib g
          (Some \<lparr>dv_Value = Some (ExtObjArray (filter (\<lambda>eo. eo \<noteq> None) v)), dv_Status = st\<rparr>) nodeDef) =
       snd (getBytesFromValue lib g (Some \<lparr>dv_Value = Some (ExtObjArray v), dv_Status = st\<rparr>) nodeDef)"
    using array_result_by_decodable [OF decodable_drop_nil, of lib g nodeDef "Some []" v]
    by (simp add: getBytesFromValue_def del: type_switch.simps)
next
  assume "list_all (\<lambda>eo. eo = None) v"
  then show "getBytesFromValue lib g (Some \<lparr>dv_Value = Some (ExtObjArray v), dv_Status = StatusOK\<rparr>) nodeDef =
        (logf (Warnf ''Skipping node %s: array of %d ExtensionObjects, none decodable (custom UDTs not registered)''
                 [ArgNodeID (nd_NodeID nodeDef), ArgInt (length v)]) g,
         Inr Suppressed)"
    by (simp add: status_OK_dispatch collect_decoded_eq decodable_all_nil Suppressed_def)
qed

theorem nil_elements_like_undecodable_witness:
  "getBytesFromValue sample_library test_conn
     (Some \<lparr>dv_Value = Some (ExtObjArray [Some undecodable_object, Some undecodable_object]), dv_Status = StatusOK\<rparr>)
     test_nodeDef =
   getBytesFromValue sample_library test_conn
     (Some \<lparr>dv_Value = Some (ExtObjArray [None, None]), dv_Status = StatusOK\<rparr>) test_nodeDef
   \<and> getBytesFromValue sample_library test_conn
       (Some \<lparr>dv_Value = Some (ExtObjArray [None, None]), dv_Status = StatusOK\<rparr>) test_nodeDef =
     (\<lparr>Log = [Warnf ''Skipping node %s: array of %d ExtensionObjects, none decodable (custom UDTs not registered)''
                [ArgNodeID (NumericNodeID 0 1001), ArgInt 2]],
       closeCalls = 0\<rparr>,
      Inr Suppressed)"
proof -
  have u: "eo_Value undecodable_object = None"
    by (simp add: undecodable_object_def)
  have nils: "list_all (\<lambda>eo. eo = None) [None :: sample_value ExtensionObject option, None]"
    by simp
  show ?thesis
    using u nils
      nil_elements_like_undecodable [of undecodable_object sample_library test_conn "[None, None]" StatusOK test_nodeDef]
    by (simp add: nil_as_undecodable_def logf_def test_conn_def test_nodeDef_def)
qed

end
